theory Spec2Isabelle
  imports Complex_Main
begin

section \<open>Python values and the helpers of vstools\<close>

text \<open>
  \<^verbatim>\<open>guided_filter\<close> (src/vsdeband/filters.py) is written in Python. Samples at the
  working precision and every real-valued parameter are modelled as \<^typ>\<open>real\<close>: the
  arithmetic of the model is the exact arithmetic that the float operations of the code
  approximate. The dynamically typed values that the code compares and divides
  (\<^verbatim>\<open>r == 1\<close>, \<^verbatim>\<open>r / down_ratio\<close>) are values of \<open>pyval\<close>.
\<close>

datatype pyval = PInt int | PFloat real | PList "pyval list"

datatype error = TypeError | ConfigurationError | ZeroDivisionError

text \<open>Python's \<^verbatim>\<open>==\<close>: numbers compare by value, lists element by element, and a list
  is never equal to a number.\<close>

fun py_eq :: "pyval \<Rightarrow> pyval \<Rightarrow> bool"
  and py_eq_list :: "pyval list \<Rightarrow> pyval list \<Rightarrow> bool" where
  "py_eq (PInt a) (PInt b) = (a = b)"
| "py_eq (PInt a) (PFloat b) = (real_of_int a = b)"
| "py_eq (PFloat a) (PInt b) = (a = real_of_int b)"
| "py_eq (PFloat a) (PFloat b) = (a = b)"
| "py_eq (PList xs) (PList ys) = py_eq_list xs ys"
| "py_eq (PInt a) (PList ys) = False"
| "py_eq (PFloat a) (PList ys) = False"
| "py_eq (PList xs) (PInt b) = False"
| "py_eq (PList xs) (PFloat b) = False"
| "py_eq_list [] [] = True"
| "py_eq_list (x # xs) (y # ys) = (py_eq x y \<and> py_eq_list xs ys)"
| "py_eq_list [] (y # ys) = False"
| "py_eq_list (x # xs) [] = False"

text \<open>Python's \<^verbatim>\<open>/\<close>: true division of two numbers; a list operand raises TypeError.\<close>

fun py_truediv :: "pyval \<Rightarrow> pyval \<Rightarrow> error + pyval" where
  "py_truediv (PInt a) (PInt b) =
     (if b = 0 then Inl ZeroDivisionError else Inr (PFloat (real_of_int a / real_of_int b)))"
| "py_truediv (PInt a) (PFloat b) =
     (if b = 0 then Inl ZeroDivisionError else Inr (PFloat (real_of_int a / b)))"
| "py_truediv (PFloat a) (PInt b) =
     (if b = 0 then Inl ZeroDivisionError else Inr (PFloat (a / real_of_int b)))"
| "py_truediv (PFloat a) (PFloat b) =
     (if b = 0 then Inl ZeroDivisionError else Inr (PFloat (a / b)))"
| "py_truediv (PList xs) v = Inl TypeError"
| "py_truediv (PInt a) (PList ys) = Inl TypeError"
| "py_truediv (PFloat a) (PList ys) = Inl TypeError"

text \<open>Python's \<^verbatim>\<open>round\<close> on a float: to the nearest integer, a tie to the even one.\<close>

definition py_round :: "real \<Rightarrow> int" where
  "py_round x =
     (let f = \<lfloor>x\<rfloor>; d = x - real_of_int f
      in if d < 1 / 2 then f else if 1 / 2 < d then f + 1 else if even f then f else f + 1)"

text \<open>\<^verbatim>\<open>cround(x, eps=1e-6)\<close> of vstools is \<^verbatim>\<open>round(x + (eps if x > 0. else -eps))\<close>;
  it compares and adds, so a list argument raises TypeError.\<close>

definition cround :: "real \<Rightarrow> int" where
  "cround x = py_round (x + (if 0 < x then 1 / 1000000 else - (1 / 1000000)))"

fun cround_py :: "pyval \<Rightarrow> error + pyval" where
  "cround_py (PInt a) = Inr (PInt (cround (real_of_int a)))"
| "cround_py (PFloat a) = Inr (PInt (cround a))"
| "cround_py (PList xs) = Inl TypeError"

text \<open>\<^verbatim>\<open>for val in r\<close> with arithmetic on \<^verbatim>\<open>val\<close>: a list of integers can be iterated,
  a number cannot.\<close>

fun int_of_py :: "pyval \<Rightarrow> error + int" where
  "int_of_py (PInt a) = Inr a"
| "int_of_py (PFloat a) = Inl TypeError"
| "int_of_py (PList xs) = Inl TypeError"

fun ints_of :: "pyval list \<Rightarrow> error + int list" where
  "ints_of [] = Inr []"
| "ints_of (v # vs) =
     (case int_of_py v of Inl e \<Rightarrow> Inl e
      | Inr a \<Rightarrow> (case ints_of vs of Inl e \<Rightarrow> Inl e | Inr as \<Rightarrow> Inr (a # as)))"

fun py_iter_ints :: "pyval \<Rightarrow> error + int list" where
  "py_iter_ints (PList xs) = ints_of xs"
| "py_iter_ints (PInt a) = Inl TypeError"
| "py_iter_ints (PFloat a) = Inl TypeError"

text \<open>\<^verbatim>\<open>normalize_seq(val, length)\<close> of vstools broadcasts to one value per plane: the
  sequence is padded with its last element and cut to \<open>length\<close>; a scalar is the
  sequence of itself. The source iterates over the result (lines 71 and 73).\<close>

definition normalize_seq :: "'a list \<Rightarrow> nat \<Rightarrow> 'a list" where
  "normalize_seq val n = take n (val @ replicate (n - length val) (last val))"

section \<open>Clips\<close>

type_synonym plane = "real list"

record plane_stats =
  PlaneStatsMin :: real
  PlaneStatsAverage :: real

record clip =
  width :: nat
  height :: nat
  bits :: nat
  subsampling_w :: nat
  subsampling_h :: nat
  planes_of :: "plane list"
  props :: plane_stats

definition num_planes :: "clip \<Rightarrow> nat" where
  "num_planes c = length (planes_of c)"

text \<open>\<^verbatim>\<open>normalize_planes(clip, planes)\<close>: every plane when \<^verbatim>\<open>planes\<close> is None, else the
  given indices that the clip has, in order.\<close>

definition normalize_planes :: "clip \<Rightarrow> nat list option \<Rightarrow> nat list" where
  "normalize_planes c planes =
     (case planes of None \<Rightarrow> [0..<num_planes c]
      | Some ps \<Rightarrow> filter (\<lambda>i. i \<in> set ps) [0..<num_planes c])"

section \<open>Parameter defaults (lines 38 to 51)\<close>

definition default_regulation :: "clip \<Rightarrow> bool \<Rightarrow> real \<Rightarrow> real list" where
  "default_regulation c is_full thr =
     (let thrs = normalize_seq [thr] (num_planes c);
          size = normalize_seq (if is_full then [220, 225, 225] else [256]) (num_planes c)
      in map (\<lambda>(t, s). t / s) (zip thrs size))"

definition default_radius :: "clip \<Rightarrow> int list" where
  "default_radius c =
     (let width_c = real (width c) / real ((2::nat) ^ subsampling_w c);
          height_c = real (height c) / real ((2::nat) ^ subsampling_h c);
          rad = max ((real (width c) - 1280) / 160 + 12) ((real (height c) - 720) / 90 + 12);
          radc = max ((width_c - 1280) / 160 + 12) ((height_c - 720) / 90 + 12)
      in take (num_planes c) [py_round rad, py_round radc])"

section \<open>The expression evaluator (\<^verbatim>\<open>norm_expr\<close>, \<^verbatim>\<open>std.Expr\<close>)\<close>

text \<open>
  An expression of \<^verbatim>\<open>std.Expr\<close> is a string in reverse Polish notation. It is
  modelled token by token: \<open>Clip 0\<close>, \<open>Clip 1\<close>, \<open>Clip 2\<close>, \<open>Clip 3\<close> are
  \<^verbatim>\<open>x y z a\<close>, \<open>Prop_Min i\<close> and \<open>Prop_Avg i\<close> are the frame properties
  \<^verbatim>\<open>PlaneStatsMin\<close> and \<^verbatim>\<open>PlaneStatsAverage\<close> of clip \<open>i\<close>. The operators are the
  exact real operations; a division by zero is \<open>0\<close> in HOL and an infinity in the
  float arithmetic of the code.
\<close>

datatype tok = Clip nat | Num real | Prop_Min nat | Prop_Avg nat
  | Add | Sub | Mul | Div | Sqrt | Exp | Dup

fun binop :: "(real \<Rightarrow> real \<Rightarrow> real) \<Rightarrow> real list \<Rightarrow> real list option" where
  "binop f (b # a # st) = Some (f a b # st)"
| "binop f [b] = None"
| "binop f [] = None"

fun unop :: "(real \<Rightarrow> real) \<Rightarrow> real list \<Rightarrow> real list option" where
  "unop f (a # st) = Some (f a # st)"
| "unop f [] = None"

fun step :: "real list \<Rightarrow> plane_stats list \<Rightarrow> tok \<Rightarrow> real list \<Rightarrow> real list option" where
  "step xs ps (Clip i) st = (if i < length xs then Some (xs ! i # st) else None)"
| "step xs ps (Num c) st = Some (c # st)"
| "step xs ps (Prop_Min i) st =
     (if i < length ps then Some (PlaneStatsMin (ps ! i) # st) else None)"
| "step xs ps (Prop_Avg i) st =
     (if i < length ps then Some (PlaneStatsAverage (ps ! i) # st) else None)"
| "step xs ps Add st = binop (\<lambda>a b. a + b) st"
| "step xs ps Sub st = binop (\<lambda>a b. a - b) st"
| "step xs ps Mul st = binop (\<lambda>a b. a * b) st"
| "step xs ps Div st = binop (\<lambda>a b. a / b) st"
| "step xs ps Sqrt st = unop sqrt st"
| "step xs ps Exp st = unop exp st"
| "step xs ps Dup st = (case st of [] \<Rightarrow> None | a # st' \<Rightarrow> Some (a # a # st'))"

text \<open>\<open>rpn e xs ps st\<close> runs the tokens of \<open>e\<close> on the stack \<open>st\<close>, with the samples
  \<open>xs\<close> of the input clips at one pixel and the frame properties \<open>ps\<close> of the input
  clips. A well-formed expression leaves exactly one value.\<close>

fun rpn :: "tok list \<Rightarrow> real list \<Rightarrow> plane_stats list \<Rightarrow> real list \<Rightarrow> real option" where
  "rpn [] xs ps st = (case st of [v] \<Rightarrow> Some v | _ \<Rightarrow> None)"
| "rpn (t # ts) xs ps st =
     (case step xs ps t st of None \<Rightarrow> None | Some st' \<Rightarrow> rpn ts xs ps st')"

text \<open>One plane of the result of an expression over the clips \<open>cs\<close>. \<^verbatim>\<open>std.Expr\<close>
  rejects a malformed expression when the filter is created; every expression of the
  source is well formed, so the value \<open>0\<close> of the \<open>None\<close> case is never read.\<close>

definition expr_plane :: "tok list \<Rightarrow> clip list \<Rightarrow> nat \<Rightarrow> plane" where
  "expr_plane e cs i =
     map (\<lambda>j. case rpn e (map (\<lambda>c. planes_of c ! i ! j) cs) (map props cs) [] of
                 Some v \<Rightarrow> v | None \<Rightarrow> 0)
         [0..<length (planes_of (hd cs) ! i)]"

text \<open>\<^verbatim>\<open>norm_expr(clips, expr, planes, **kwargs)\<close>: \<^verbatim>\<open>norm_expr_planes\<close> formats the
  expression for each plane index and gives the empty expression to a plane outside
  \<^verbatim>\<open>planes\<close>; \<^verbatim>\<open>std.Expr\<close> copies such a plane from the first clip. Format, size and
  frame properties of the result are those of the first clip. \<open>e i\<close> is the expression
  formatted for plane \<open>i\<close>.\<close>

definition norm_expr :: "clip list \<Rightarrow> (nat \<Rightarrow> tok list) \<Rightarrow> nat list \<Rightarrow> clip" where
  "norm_expr cs e planes =
     (hd cs)\<lparr>planes_of :=
        map (\<lambda>i. if i \<in> set planes then expr_plane (e i) cs i else planes_of (hd cs) ! i)
            [0..<num_planes (hd cs)]\<rparr>"

text \<open>A keyword argument of \<^verbatim>\<open>norm_expr_planes\<close> is broadcast with
  \<^verbatim>\<open>normalize_seq(value)\<close> (length 3) and plane \<open>i\<close> takes its \<open>i\<close>-th value.\<close>

definition fmt :: "real list \<Rightarrow> nat \<Rightarrow> real" where
  "fmt vals i = normalize_seq vals 3 ! i"

text \<open>\<^verbatim>\<open>std.PlaneStats(None, 0)\<close>: minimum and arithmetic mean of plane 0, stored in the
  frame properties.\<close>

definition PlaneStats :: "clip \<Rightarrow> clip" where
  "PlaneStats c =
     c\<lparr>props := \<lparr>PlaneStatsMin = Min (set (planes_of c ! 0)),
                  PlaneStatsAverage =
                    sum_list (planes_of c ! 0) / real (length (planes_of c ! 0))\<rparr>\<rparr>"

section \<open>The collaborators: blur, precision conversion, resampling\<close>

text \<open>
  \<^verbatim>\<open>box_blur\<close> and \<^verbatim>\<open>gauss_blur\<close> (vsrgtools), \<^verbatim>\<open>depth\<close> (vstools) and the scalers
  (vskernels) are library services. What they compute on one plane is a parameter of
  the model, the record \<open>collab\<close>; what the filter relies on is written out: a blur
  and a conversion keep the size of the clip, a blur leaves a plane outside
  \<^verbatim>\<open>planes\<close> as it is, and a scaler sets the size it is given.
\<close>

datatype kernel = Box int | Gauss real

datatype scaler = Point | Bilinear

record collab =
  blur_plane :: "kernel \<Rightarrow> nat \<Rightarrow> nat \<Rightarrow> plane \<Rightarrow> plane"
  convert :: "nat \<Rightarrow> nat \<Rightarrow> nat \<Rightarrow> real \<Rightarrow> real"
  scale_plane :: "scaler \<Rightarrow> nat \<Rightarrow> nat \<Rightarrow> nat \<Rightarrow> nat \<Rightarrow> plane \<Rightarrow> plane"

definition plane_width :: "clip \<Rightarrow> nat \<Rightarrow> nat" where
  "plane_width c i = (if i = 0 then width c else width c div 2 ^ subsampling_w c)"

definition plane_height :: "clip \<Rightarrow> nat \<Rightarrow> nat" where
  "plane_height c i = (if i = 0 then height c else height c div 2 ^ subsampling_h c)"

definition blur_planes :: "collab \<Rightarrow> kernel list \<Rightarrow> nat list \<Rightarrow> clip \<Rightarrow> clip" where
  "blur_planes X ks planes c =
     c\<lparr>planes_of :=
        map (\<lambda>i. if i \<in> set planes
                  then blur_plane X (ks ! i) (plane_width c i) (plane_height c i) (planes_of c ! i)
                  else planes_of c ! i)
            [0..<num_planes c]\<rparr>"

definition box_blur :: "collab \<Rightarrow> int list \<Rightarrow> nat list \<Rightarrow> clip \<Rightarrow> clip" where
  "box_blur X radius planes c = blur_planes X (map Box radius) planes c"

definition gauss_blur :: "collab \<Rightarrow> real list \<Rightarrow> nat list \<Rightarrow> clip \<Rightarrow> clip" where
  "gauss_blur X sigma planes c = blur_planes X (map Gauss sigma) planes c"

text \<open>\<^verbatim>\<open>depth(clip, bitdepth)\<close> returns the clip itself when it has that depth already and
  converts every sample otherwise; \<^verbatim>\<open>expect_bits(clip, 32)\<close> is the converted clip and
  the depth the clip had.\<close>

definition depth :: "collab \<Rightarrow> clip \<Rightarrow> nat \<Rightarrow> clip" where
  "depth X c b =
     (if bits c = b then c
      else c\<lparr>bits := b,
             planes_of := map (\<lambda>i. map (convert X (bits c) b i) (planes_of c ! i))
                              [0..<num_planes c]\<rparr>)"

definition expect_bits :: "collab \<Rightarrow> clip \<Rightarrow> nat \<Rightarrow> clip \<times> nat" where
  "expect_bits X c b = (depth X c b, bits c)"

definition scale :: "collab \<Rightarrow> scaler \<Rightarrow> clip \<Rightarrow> nat \<Rightarrow> nat \<Rightarrow> clip" where
  "scale X sc c w h =
     c\<lparr>width := w, height := h,
       planes_of := map (\<lambda>i. scale_plane X sc (plane_width c i) (plane_height c i)
                                 (plane_width (c\<lparr>width := w\<rparr>) i)
                                 (plane_height (c\<lparr>height := h\<rparr>) i) (planes_of c ! i))
                        [0..<num_planes c]\<rparr>"

text \<open>\<^verbatim>\<open>check_ref_clip(clip, guidance)\<close>: a guidance whose dimensions or plane count
  differ from the input's is refused.\<close>

definition check_ref_clip :: "clip \<Rightarrow> clip option \<Rightarrow> error + unit" where
  "check_ref_clip c guidance =
     (case guidance of None \<Rightarrow> Inr ()
      | Some gd \<Rightarrow>
          if width gd = width c \<and> height gd = height c \<and> num_planes gd = num_planes c
          then Inr () else Inl ConfigurationError)"

section \<open>The expressions of the source\<close>

text \<open>Each definition is the token sequence of one expression string of
  \<^verbatim>\<open>guided_filter\<close>, with the keyword arguments already formatted in.\<close>

definition expr_square :: "tok list" where  \<comment> \<open>\<^verbatim>\<open>x dup *\<close>, line 83\<close>
  "expr_square = [Clip 0, Dup, Mul]"

definition expr_product :: "tok list" where  \<comment> \<open>\<^verbatim>\<open>x y *\<close>, line 85\<close>
  "expr_product = [Clip 0, Clip 1, Mul]"

definition expr_var :: "tok list" where  \<comment> \<open>\<^verbatim>\<open>x y dup * -\<close>, lines 87 and 98\<close>
  "expr_var = [Clip 0, Clip 1, Dup, Mul, Sub]"

definition expr_cov :: "tok list" where  \<comment> \<open>\<^verbatim>\<open>x y z * -\<close>, lines 88 and 142\<close>
  "expr_cov = [Clip 0, Clip 1, Clip 2, Mul, Sub]"

definition expr_original :: "real \<Rightarrow> tok list" where  \<comment> \<open>\<^verbatim>\<open>x y {eps} + /\<close>, line 91\<close>
  "expr_original eps = [Clip 0, Clip 1, Num eps, Add, Div]"

definition expr_sqrt :: "tok list" where  \<comment> \<open>\<^verbatim>\<open>x y * sqrt\<close>, line 103\<close>
  "expr_sqrt = [Clip 0, Clip 1, Mul, Sqrt]"

definition expr_denominator :: "real \<Rightarrow> tok list" where  \<comment> \<open>\<^verbatim>\<open>1 x {eps} + /\<close>, line 105\<close>
  "expr_denominator eps = [Num 1, Clip 0, Num eps, Add, Div]"

definition expr_weight_aka :: "tok list" where
  \<comment> \<open>\<^verbatim>\<open>x 1e-06 + y.PlaneStatsAverage *\<close>, line 110\<close>
  "expr_weight_aka = [Clip 0, Num (1 / 1000000), Add, Prop_Avg 1, Mul]"

definition expr_weight_eval :: "real \<Rightarrow> tok list" where
  \<comment> \<open>\<^verbatim>\<open>x 1e-06 + {f.props.PlaneStatsAverage} *\<close>, line 114\<close>
  "expr_weight_eval avg = [Clip 0, Num (1 / 1000000), Add, Num avg, Mul]"

definition expr_weighted :: "real \<Rightarrow> tok list" where  \<comment> \<open>\<^verbatim>\<open>x y {eps} z / + /\<close>, line 119\<close>
  "expr_weighted eps = [Clip 0, Clip 1, Num eps, Clip 2, Div, Add, Div]"

definition expr_gradient_aka :: "real \<Rightarrow> tok list" where
  \<comment> \<open>\<^verbatim>\<open>x {eps} 1 1 1 -4 y.PlaneStatsMin y.PlaneStatsAverage 1e-6 - - /
       y y.PlaneStatsAverage - * exp + / - * z / + a {eps} z / + /\<close>, lines 126 and 127\<close>
  "expr_gradient_aka eps =
     [Clip 0, Num eps, Num 1, Num 1, Num 1, Num (- 4), Prop_Min 1, Prop_Avg 1,
      Num (1 / 1000000), Sub, Sub, Div,
      Clip 1, Prop_Avg 1, Sub, Mul, Exp, Add, Div, Sub, Mul, Clip 2, Div, Add,
      Clip 3, Num eps, Clip 2, Div, Add, Div]"

definition expr_gradient_eval :: "real \<Rightarrow> real \<Rightarrow> real \<Rightarrow> tok list" where
  \<comment> \<open>\<^verbatim>\<open>x {eps} 1 1 1 {kk} y {alpha} - * exp + / - * z / + a {eps} z / + /\<close>, line 136\<close>
  "expr_gradient_eval eps kk alpha =
     [Clip 0, Num eps, Num 1, Num 1, Num 1, Num kk,
      Clip 1, Num alpha, Sub, Mul, Exp, Add, Div, Sub, Mul, Clip 2, Div, Add,
      Clip 3, Num eps, Clip 2, Div, Add, Div]"

definition expr_output :: "tok list" where  \<comment> \<open>\<^verbatim>\<open>x y * z +\<close>, line 150\<close>
  "expr_output = [Clip 0, Clip 1, Mul, Clip 2, Add]"

section \<open>The filter\<close>

text \<open>\<^verbatim>\<open>GuidedFilterMode\<close> is imported from the \<^verbatim>\<open>types\<close> module of the package; its
  members are the three modes.\<close>

datatype GuidedFilterMode = ORIGINAL | WEIGHTED | GRADIENT

text \<open>Lines 70 to 78: the two partial applications of the blur.\<close>

definition blur_filter :: "collab \<Rightarrow> bool \<Rightarrow> int list \<Rightarrow> nat list \<Rightarrow> clip \<Rightarrow> clip" where
  "blur_filter X gauss r planes =
     (if gauss then gauss_blur X (map (\<lambda>val. real_of_int val / 2 * sqrt 2) r) planes
      else box_blur X (map (\<lambda>val. val + 1) r) planes)"

definition blur_filter_corr :: "collab \<Rightarrow> bool \<Rightarrow> nat list \<Rightarrow> clip \<Rightarrow> clip" where
  "blur_filter_corr X gauss planes c =
     (if gauss then gauss_blur X (normalize_seq [1 / 2 * sqrt 2] (num_planes c)) planes c
      else box_blur X (normalize_seq [2] (num_planes c)) planes c)"

text \<open>Lines 80 to 88: the local statistics. \<open>guided\<close> is \<^verbatim>\<open>guidance is not None\<close>.\<close>

record statistics =
  mean_p :: clip
  mean_I :: clip
  I_square :: clip
  corr_I :: clip
  corr_Ip :: clip
  var_I :: clip
  cov_Ip :: clip

definition local_statistics ::
  "(clip \<Rightarrow> clip) \<Rightarrow> nat list \<Rightarrow> bool \<Rightarrow> clip \<Rightarrow> clip \<Rightarrow> statistics" where
  "local_statistics blur planes guided p g =
     (let mean_p = blur p;
          mean_I = (if guided then blur g else mean_p);
          I_square = norm_expr [g] (\<lambda>i. expr_square) planes;
          corr_I = blur I_square;
          corr_Ip = (if guided then blur (norm_expr [g, p] (\<lambda>i. expr_product) planes)
                     else corr_I);
          var_I = norm_expr [corr_I, mean_I] (\<lambda>i. expr_var) planes;
          cov_Ip = (if guided then norm_expr [corr_Ip, mean_I, mean_p] (\<lambda>i. expr_cov) planes
                    else var_I)
      in \<lparr>mean_p = mean_p, mean_I = mean_I, I_square = I_square, corr_I = corr_I,
          corr_Ip = corr_Ip, var_I = var_I, cov_Ip = cov_Ip\<rparr>)"

text \<open>Lines 93 to 98: \<^verbatim>\<open>var_I_1\<close>. \<open>r\<close> is the Python value bound to \<^verbatim>\<open>r\<close>.\<close>

definition corrective_variance ::
  "(clip \<Rightarrow> clip) \<Rightarrow> nat list \<Rightarrow> pyval \<Rightarrow> clip \<Rightarrow> statistics \<Rightarrow> clip" where
  "corrective_variance blur_corr planes r g S =
     (if py_eq r (PInt 1) then var_I S
      else let mean_I_1 = blur_corr g;
               corr_I_1 = blur_corr (I_square S)
           in norm_expr [corr_I_1, mean_I_1] (\<lambda>i. expr_var) planes)"

text \<open>Lines 100 to 103: the weight source \<^verbatim>\<open>weight_in\<close>.\<close>

definition weight_source :: "GuidedFilterMode \<Rightarrow> nat list \<Rightarrow> clip \<Rightarrow> clip \<Rightarrow> clip" where
  "weight_source m planes varI varI_1 =
     (if m = WEIGHTED then varI_1
      else norm_expr [varI, varI_1] (\<lambda>i. expr_sqrt) planes)"

text \<open>Lines 105 to 116: \<^verbatim>\<open>denominator\<close> and \<^verbatim>\<open>weight\<close>. With \<open>aka\<close>
  (\<^verbatim>\<open>aka_expr_available\<close>) one expression reads the frame property; otherwise the
  callback of \<^verbatim>\<open>FrameEval\<close> reads it from the frame of \<^verbatim>\<open>denominator\<close> and formats it
  into an expression over \<^verbatim>\<open>weight_in\<close>.\<close>

definition denominator_of :: "nat list \<Rightarrow> clip \<Rightarrow> clip" where
  "denominator_of planes weight_in =
     PlaneStats (norm_expr [weight_in] (\<lambda>i. expr_denominator (fmt [1 / 1000000] i)) planes)"

definition weight_of :: "bool \<Rightarrow> nat list \<Rightarrow> clip \<Rightarrow> clip" where
  "weight_of aka planes weight_in =
     (let denominator = denominator_of planes weight_in
      in if aka then norm_expr [weight_in, denominator] (\<lambda>i. expr_weight_aka) planes
         else norm_expr [weight_in]
                (\<lambda>i. expr_weight_eval (PlaneStatsAverage (props denominator))) planes)"

text \<open>Lines 121 to 140: the slope of GRADIENT mode, from \<^verbatim>\<open>weight_in\<close> before its
  \<^verbatim>\<open>PlaneStats\<close>.\<close>

definition gradient_a ::
  "bool \<Rightarrow> nat list \<Rightarrow> real list \<Rightarrow> clip \<Rightarrow> clip \<Rightarrow> clip \<Rightarrow> clip \<Rightarrow> clip" where
  "gradient_a aka planes eps covIp weight_in0 weight varI =
     (let weight_in = PlaneStats weight_in0
      in if aka
         then norm_expr [covIp, weight_in, weight, varI]
                (\<lambda>i. expr_gradient_aka (fmt eps i)) planes
         else let frameMean = PlaneStatsAverage (props weight_in);
                  kk = - 4 / (PlaneStatsMin (props weight_in) - frameMean - 1 / 1000000);
                  alpha = frameMean
              in norm_expr [covIp, weight_in, weight, varI]
                   (\<lambda>i. expr_gradient_eval (fmt eps i) (fmt [kk] i) (fmt [alpha] i)) planes)"

text \<open>Lines 90 to 140: the slope \<^verbatim>\<open>a\<close>.\<close>

definition solve_a ::
  "GuidedFilterMode \<Rightarrow> bool \<Rightarrow> (clip \<Rightarrow> clip) \<Rightarrow> nat list \<Rightarrow> real list \<Rightarrow> pyval \<Rightarrow> clip
     \<Rightarrow> statistics \<Rightarrow> clip" where
  "solve_a m aka blur_corr planes eps r g S =
     (if m = ORIGINAL
      then norm_expr [cov_Ip S, var_I S] (\<lambda>i. expr_original (fmt eps i)) planes
      else let var_I_1 = corrective_variance blur_corr planes r g S;
               weight_in = weight_source m planes (var_I S) var_I_1;
               weight = weight_of aka planes weight_in
           in if m = WEIGHTED
              then norm_expr [cov_Ip S, var_I S, weight] (\<lambda>i. expr_weighted (fmt eps i)) planes
              else gradient_a aka planes eps (cov_Ip S) weight_in weight (var_I S))"

text \<open>Line 142: the intercept \<^verbatim>\<open>b\<close>.\<close>

definition solve_b :: "nat list \<Rightarrow> statistics \<Rightarrow> clip \<Rightarrow> clip" where
  "solve_b planes S a = norm_expr [mean_p S, a, mean_I S] (\<lambda>i. expr_cov) planes"

text \<open>The arguments of \<^verbatim>\<open>guided_filter\<close> after \<^verbatim>\<open>clip\<close>. \<open>range_is_full\<close> is
  \<^verbatim>\<open>range_in.is_full\<close> as line 34 resolves it; a scalar \<^verbatim>\<open>regulation\<close> is the list of
  itself.\<close>

record gf_args =
  guidance :: "clip option"
  radius :: "int option"
  thr :: real
  regulation :: "real list option"
  mode :: GuidedFilterMode
  use_gauss :: bool
  planes :: "nat list option"
  range_is_full :: bool
  down_ratio :: int
  downscaler :: scaler
  upscaler :: scaler

text \<open>Lines 61 to 68: the resolution reducer. It yields \<^verbatim>\<open>p\<close>, \<^verbatim>\<open>g\<close> and the value
  bound to \<^verbatim>\<open>r\<close>; line 68 divides the list \<^verbatim>\<open>r\<close> by \<^verbatim>\<open>down_ratio\<close>.\<close>

definition reduce_resolution ::
  "collab \<Rightarrow> gf_args \<Rightarrow> nat \<Rightarrow> nat \<Rightarrow> clip \<Rightarrow> clip \<Rightarrow> int list \<Rightarrow> error + clip \<times> clip \<times> pyval" where
  "reduce_resolution X A w h p g r =
     (if down_ratio A \<noteq> 0
      then let down_w = nat (cround (real w / real_of_int (down_ratio A)));
               down_h = nat (cround (real h / real_of_int (down_ratio A)));
               p' = scale X (downscaler A) p down_w down_h;
               g' = (if guidance A \<noteq> None then scale X (downscaler A) g down_w down_h else p')
           in case py_truediv (PList (map PInt r)) (PInt (down_ratio A)) of
                Inl e \<Rightarrow> Inl e
              | Inr v \<Rightarrow> (case cround_py v of Inl e \<Rightarrow> Inl e | Inr r' \<Rightarrow> Inr (p', g', r'))
      else Inr (p, g, PList (map PInt r)))"

text \<open>Lines 70 to 144: the statistics, the coefficients and their smoothing, at the
  working resolution. \<open>r\<close> is the value bound to \<^verbatim>\<open>r\<close> and \<open>rs\<close> the integers that
  the comprehensions of lines 71 and 73 iterate over.\<close>

definition smoothed_coefficients ::
  "collab \<Rightarrow> bool \<Rightarrow> gf_args \<Rightarrow> nat list \<Rightarrow> real list \<Rightarrow> pyval \<Rightarrow> int list \<Rightarrow> clip \<Rightarrow> clip
     \<Rightarrow> clip \<times> clip" where
  "smoothed_coefficients X aka A pl eps r rs p g =
     (let blur = blur_filter X (use_gauss A) rs pl;
          blur_corr = blur_filter_corr X (use_gauss A) pl;
          S = local_statistics blur pl (guidance A \<noteq> None) p g;
          a = solve_a (mode A) aka blur_corr pl eps r g S;
          b = solve_b pl S a
      in (blur a, blur b))"

text \<open>\<^verbatim>\<open>guided_filter\<close>, lines 21 to 152. \<open>aka\<close> is the module constant
  \<^verbatim>\<open>aka_expr_available\<close>.\<close>

definition guided_filter :: "collab \<Rightarrow> bool \<Rightarrow> clip \<Rightarrow> gf_args \<Rightarrow> error + clip" where
  "guided_filter X aka clip A =
     (let planes = normalize_planes clip (planes A);
          regulation = (case regulation A of
                          None \<Rightarrow> default_regulation clip (range_is_full A) (thr A)
                        | Some rg \<Rightarrow> rg);
          radius = (case radius A of None \<Rightarrow> default_radius clip | Some v \<Rightarrow> [v])
      in case check_ref_clip clip (guidance A) of
           Inl e \<Rightarrow> Inl e
         | Inr u \<Rightarrow>
            (let (p, bits) = expect_bits X clip 32;
                 guidance_clip = (case guidance A of Some gd \<Rightarrow> depth X gd 32 | None \<Rightarrow> p);
                 r = normalize_seq radius (num_planes clip);
                 eps = normalize_seq regulation (num_planes clip)
             in case reduce_resolution X A (width clip) (height clip) p guidance_clip r of
                  Inl e \<Rightarrow> Inl e
                | Inr (p, g, r) \<Rightarrow>
                   (case py_iter_ints r of
                      Inl e \<Rightarrow> Inl e
                    | Inr rs \<Rightarrow>
                       (let (mean_a, mean_b) = smoothed_coefficients X aka A planes eps r rs p g;
                            mean_a = (if down_ratio A \<noteq> 0
                                      then scale X (upscaler A) mean_a (width clip) (height clip)
                                      else mean_a);
                            mean_b = (if down_ratio A \<noteq> 0
                                      then scale X (upscaler A) mean_b (width clip) (height clip)
                                      else mean_b);
                            q = norm_expr [mean_a, guidance_clip, mean_b] (\<lambda>i. expr_output) planes
                        in Inr (depth X q bits)))))"

text \<open>The default values of the signature, lines 22 to 25.\<close>

definition default_args :: gf_args where
  "default_args =
     \<lparr>guidance = None, radius = None, thr = 1 / 3, regulation = None, mode = GRADIENT,
      use_gauss = False, planes = None, range_is_full = False, down_ratio = 0,
      downscaler = Point, upscaler = Bilinear\<rparr>"

section \<open>Auxiliary definitions\<close>

text \<open>The luma and the chroma term of lines 49 and 50, before rounding.\<close>

definition rad_of :: "real \<Rightarrow> real \<Rightarrow> real" where
  "rad_of w h = max ((w - 1280) / 160 + 12) ((h - 720) / 90 + 12)"

text \<open>A float clip with the given planes, for concrete evaluations.\<close>

definition plain_clip :: "plane list \<Rightarrow> clip" where
  "plain_clip ps =
     \<lparr>width = length (hd ps), height = 1, bits = 32, subsampling_w = 0, subsampling_h = 0,
      planes_of = ps, props = \<lparr>PlaneStatsMin = 0, PlaneStatsAverage = 0\<rparr>\<rparr>"

text \<open>Statistics of a two-pixel plane on which the weight source of GRADIENT mode is
  \<open>[0, 2]\<close>.\<close>

definition example_statistics :: statistics where
  "example_statistics =
     \<lparr>mean_p = plain_clip [[0, 1]], mean_I = plain_clip [[0, 1]],
      I_square = plain_clip [[0, 4]], corr_I = plain_clip [[0, 2]],
      corr_Ip = plain_clip [[0, 2]], var_I = plain_clip [[0, 1]],
      cov_Ip = plain_clip [[0, 1]]\<rparr>"

text \<open>The working-precision result of a run without resolution reduction.\<close>

definition working_result :: "collab \<Rightarrow> bool \<Rightarrow> clip \<Rightarrow> gf_args \<Rightarrow> clip" where
  "working_result X aka clip A =
     (let pl = normalize_planes clip (planes A);
          regulation = (case regulation A of
                          None \<Rightarrow> default_regulation clip (range_is_full A) (thr A)
                        | Some rg \<Rightarrow> rg);
          radius = (case radius A of None \<Rightarrow> default_radius clip | Some v \<Rightarrow> [v]);
          p = depth X clip 32;
          guidance_clip = (case guidance A of Some gd \<Rightarrow> depth X gd 32 | None \<Rightarrow> p);
          r = normalize_seq radius (num_planes clip);
          eps = normalize_seq regulation (num_planes clip);
          ab = smoothed_coefficients X aka A pl eps (PList (map PInt r)) r p guidance_clip
      in norm_expr [fst ab, guidance_clip, snd ab] (\<lambda>i. expr_output) pl)"

text \<open>The guidance at the working precision, line 56.\<close>

definition guidance_clip_of :: "collab \<Rightarrow> clip \<Rightarrow> gf_args \<Rightarrow> clip" where
  "guidance_clip_of X clip A =
     (case guidance A of Some gd \<Rightarrow> depth X gd 32 | None \<Rightarrow> depth X clip 32)"

text \<open>Collaborators that leave every plane and every sample as it is.\<close>

definition plain_collab :: collab where
  "plain_collab =
     \<lparr>blur_plane = (\<lambda>k w h p. p), convert = (\<lambda>a b i v. v),
      scale_plane = (\<lambda>sc w h w' h' p. p)\<rparr>"

text \<open>A clip of one plane whose samples all have the value \<open>v\<close>.\<close>

definition uniform :: "clip \<Rightarrow> nat \<Rightarrow> real \<Rightarrow> bool" where
  "uniform c n v = (planes_of c = [replicate n v])"

section \<open>Properties of the helpers\<close>

lemma py_round_of_int: "py_round (real_of_int n) = n"
  by (simp add: py_round_def)

lemma py_round_bounds: "\<lfloor>x\<rfloor> \<le> py_round x \<and> py_round x \<le> \<lfloor>x\<rfloor> + 1"
  by (simp add: py_round_def Let_def)

lemma py_round_mono: "x \<le> y \<Longrightarrow> py_round x \<le> py_round y"
proof -
  assume xy: "x \<le> y"
  have fl: "\<lfloor>x\<rfloor> \<le> \<lfloor>y\<rfloor>" using xy by (rule floor_mono)
  show ?thesis
  proof (cases "\<lfloor>x\<rfloor> = \<lfloor>y\<rfloor>")
    case True
    then show ?thesis using xy by (auto simp: py_round_def Let_def)
  next
    case False
    then have "\<lfloor>x\<rfloor> + 1 \<le> \<lfloor>y\<rfloor>" using fl by simp
    then show ?thesis using py_round_bounds [of x] py_round_bounds [of y] by linarith
  qed
qed

lemma py_round_ge: "real_of_int k \<le> x \<Longrightarrow> k \<le> py_round x"
  using py_round_mono [of "real_of_int k" x] by (simp add: py_round_of_int)

lemma py_round_le: "x \<le> real_of_int k \<Longrightarrow> py_round x \<le> k"
  using py_round_mono [of x "real_of_int k"] by (simp add: py_round_of_int)

lemma normalize_seq_length: "length (normalize_seq val n) = n"
  by (simp add: normalize_seq_def)

lemma normalize_seq_nth_0: "val \<noteq> [] \<Longrightarrow> 0 < n \<Longrightarrow> normalize_seq val n ! 0 = val ! 0"
  by (cases val) (simp_all add: normalize_seq_def)

lemma normalize_seq_singleton: "normalize_seq [v] n = replicate n v"
proof (cases n)
  case 0
  then show ?thesis by (simp add: normalize_seq_def)
next
  case (Suc m)
  have "[v] @ replicate m v = replicate (Suc m) v" by simp
  then show ?thesis using Suc by (simp add: normalize_seq_def del: replicate_Suc)
qed

section \<open>The default radius\<close>

lemma default_radius_nth_0:
  "0 < num_planes c \<Longrightarrow>
   normalize_seq (default_radius c) (num_planes c) ! 0
     = py_round (rad_of (real (width c)) (real (height c)))"
  by (cases "num_planes c")
     (simp_all add: default_radius_def normalize_seq_def rad_of_def Let_def)

lemma default_radius_nth_chroma:
  assumes "0 < i" and "i < num_planes c"
  shows "normalize_seq (default_radius c) (num_planes c) ! i
     = py_round (rad_of (real (width c) / 2 ^ subsampling_w c)
                        (real (height c) / 2 ^ subsampling_h c))"
proof -
  obtain m where n: "num_planes c = Suc (Suc m)"
    using assms by (cases "num_planes c"; cases "num_planes c - 1") auto
  obtain k where i: "i = Suc k" using assms(1) by (cases i) auto
  have k: "k < Suc m" using assms(2) n i by simp
  have eq: "normalize_seq (default_radius c) (num_planes c)
        = py_round (rad_of (real (width c)) (real (height c)))
          # replicate (Suc m)
              (py_round (rad_of (real (width c) / 2 ^ subsampling_w c)
                                (real (height c) / 2 ^ subsampling_h c)))"
    using n by (simp add: default_radius_def normalize_seq_def rad_of_def Let_def
                     replicate_append_same)
  show ?thesis unfolding eq i by (simp only: nth_Cons_Suc nth_replicate [OF k])
qed

text \<open>
  C2, as stated, does not hold: at or below 1280 by 720 the default radius is not at
  least 12. At 640 by 360 both terms are \<open>8\<close>.
\<close>

theorem default_radius_640x360_counterexample:
  "\<not> 12 \<le> normalize_seq
       (default_radius \<lparr>width = 640, height = 360, bits = 8, subsampling_w = 1,
          subsampling_h = 1, planes_of = [[], [], []],
          props = \<lparr>PlaneStatsMin = 0, PlaneStatsAverage = 0\<rparr>\<rparr>) 3 ! 0"
  by (simp add: default_radius_def normalize_seq_def num_planes_def py_round_def Let_def)

text \<open>
  C2, amended. With \<^verbatim>\<open>radius\<close> unset, the radius of plane 0 is Python's \<^verbatim>\<open>round\<close> of
  \<open>max ((width - 1280) / 160 + 12) ((height - 720) / 90 + 12)\<close> and the radius of every
  other plane is the same formula on the chroma-subsampled width and height. The
  radius of plane 0 is at least 12 when the width is at least 1280 or the height at
  least 720, exactly 12 at 1280 by 720, at most 12 when the width is at most 1280 and
  the height at most 720, and it does not decrease when width and height grow.
\<close>

theorem default_radius_formula:
  assumes "0 < num_planes c" and "0 < num_planes c'"
  shows "normalize_seq (default_radius c) (num_planes c) ! 0
           = py_round (max ((real (width c) - 1280) / 160 + 12)
                           ((real (height c) - 720) / 90 + 12))
    \<and> (0 < i \<and> i < num_planes c \<longrightarrow>
         normalize_seq (default_radius c) (num_planes c) ! i
           = py_round (max ((real (width c) / 2 ^ subsampling_w c - 1280) / 160 + 12)
                           ((real (height c) / 2 ^ subsampling_h c - 720) / 90 + 12)))
    \<and> (1280 \<le> width c \<or> 720 \<le> height c \<longrightarrow>
         12 \<le> normalize_seq (default_radius c) (num_planes c) ! 0)
    \<and> (width c = 1280 \<and> height c = 720 \<longrightarrow>
         normalize_seq (default_radius c) (num_planes c) ! 0 = 12)
    \<and> (width c \<le> 1280 \<and> height c \<le> 720 \<longrightarrow>
         normalize_seq (default_radius c) (num_planes c) ! 0 \<le> 12)
    \<and> (width c \<le> width c' \<and> height c \<le> height c' \<longrightarrow>
         normalize_seq (default_radius c) (num_planes c) ! 0
           \<le> normalize_seq (default_radius c') (num_planes c') ! 0)"
proof -
  note r0 = default_radius_nth_0 [OF assms(1)]
  have f1: "normalize_seq (default_radius c) (num_planes c) ! 0
           = py_round (max ((real (width c) - 1280) / 160 + 12)
                           ((real (height c) - 720) / 90 + 12))"
    using r0 by (simp add: rad_of_def)
  have f2: "0 < i \<and> i < num_planes c \<Longrightarrow>
         normalize_seq (default_radius c) (num_planes c) ! i
           = py_round (max ((real (width c) / 2 ^ subsampling_w c - 1280) / 160 + 12)
                           ((real (height c) / 2 ^ subsampling_h c - 720) / 90 + 12))"
    using default_radius_nth_chroma [of i c] by (simp add: rad_of_def)
  have f3: "1280 \<le> width c \<or> 720 \<le> height c \<Longrightarrow>
         12 \<le> normalize_seq (default_radius c) (num_planes c) ! 0"
  proof -
    assume "1280 \<le> width c \<or> 720 \<le> height c"
    then have "real_of_int 12 \<le> rad_of (real (width c)) (real (height c))"
      by (auto simp: rad_of_def max_def)
    then show ?thesis unfolding r0 by (rule py_round_ge)
  qed
  have f4: "width c = 1280 \<and> height c = 720 \<Longrightarrow>
         normalize_seq (default_radius c) (num_planes c) ! 0 = 12"
  proof -
    assume "width c = 1280 \<and> height c = 720"
    then have "rad_of (real (width c)) (real (height c)) = real_of_int 12"
      by (simp add: rad_of_def)
    then show ?thesis unfolding r0 by (simp only: py_round_of_int)
  qed
  have f5: "width c \<le> 1280 \<and> height c \<le> 720 \<Longrightarrow>
         normalize_seq (default_radius c) (num_planes c) ! 0 \<le> 12"
  proof -
    assume "width c \<le> 1280 \<and> height c \<le> 720"
    then have "rad_of (real (width c)) (real (height c)) \<le> real_of_int 12"
      by (auto simp: rad_of_def max_def)
    then show ?thesis unfolding r0 by (rule py_round_le)
  qed
  have f6: "width c \<le> width c' \<and> height c \<le> height c' \<Longrightarrow>
         normalize_seq (default_radius c) (num_planes c) ! 0
           \<le> normalize_seq (default_radius c') (num_planes c') ! 0"
  proof -
    assume "width c \<le> width c' \<and> height c \<le> height c'"
    then have "rad_of (real (width c)) (real (height c))
               \<le> rad_of (real (width c')) (real (height c'))"
      by (auto simp: rad_of_def max_def divide_right_mono)
    then show ?thesis
      unfolding r0 default_radius_nth_0 [OF assms(2)] by (rule py_round_mono)
  qed
  show ?thesis using f1 f2 f3 f4 f5 f6 by blast
qed

theorem default_radius_formula_witness:
  "normalize_seq (default_radius \<lparr>width = 1280, height = 720, bits = 8, subsampling_w = 1,
      subsampling_h = 1, planes_of = [[], [], []],
      props = \<lparr>PlaneStatsMin = 0, PlaneStatsAverage = 0\<rparr>\<rparr>) 3 = [12, 8, 8]
   \<and> 12 \<le> normalize_seq (default_radius \<lparr>width = 1920, height = 1080, bits = 8,
      subsampling_w = 1, subsampling_h = 1, planes_of = [[], [], []],
      props = \<lparr>PlaneStatsMin = 0, PlaneStatsAverage = 0\<rparr>\<rparr>) 3 ! 0"
  using default_radius_formula [of
      "\<lparr>width = 1280, height = 720, bits = 8, subsampling_w = 1,
        subsampling_h = 1, planes_of = [[], [], []],
        props = \<lparr>PlaneStatsMin = 0, PlaneStatsAverage = 0\<rparr>\<rparr>"
      "\<lparr>width = 1920, height = 1080, bits = 8, subsampling_w = 1,
        subsampling_h = 1, planes_of = [[], [], []],
        props = \<lparr>PlaneStatsMin = 0, PlaneStatsAverage = 0\<rparr>\<rparr>" 1]
  by (simp add: default_radius_def normalize_seq_def num_planes_def py_round_def Let_def)

section \<open>The expressions and the coefficient solver\<close>

lemma norm_expr_fields [simp]:
  "width (norm_expr cs e pl) = width (hd cs)"
  "height (norm_expr cs e pl) = height (hd cs)"
  "bits (norm_expr cs e pl) = bits (hd cs)"
  "props (norm_expr cs e pl) = props (hd cs)"
  "subsampling_w (norm_expr cs e pl) = subsampling_w (hd cs)"
  "subsampling_h (norm_expr cs e pl) = subsampling_h (hd cs)"
  "num_planes (norm_expr cs e pl) = num_planes (hd cs)"
  by (simp_all add: norm_expr_def num_planes_def)

lemma norm_expr_plane:
  "i < num_planes (hd cs) \<Longrightarrow>
   planes_of (norm_expr cs e pl) ! i
     = (if i \<in> set pl then expr_plane (e i) cs i else planes_of (hd cs) ! i)"
  by (simp add: norm_expr_def num_planes_def)

lemma expr_plane_length: "length (expr_plane e cs i) = length (planes_of (hd cs) ! i)"
  by (simp add: expr_plane_def)

lemma expr_plane_nth:
  "j < length (planes_of (hd cs) ! i) \<Longrightarrow>
   expr_plane e cs i ! j
     = (case rpn e (map (\<lambda>c. planes_of c ! i ! j) cs) (map props cs) [] of
          Some v \<Rightarrow> v | None \<Rightarrow> 0)"
  by (simp add: expr_plane_def)

lemma rpn_square: "rpn expr_square [x] ps [] = Some (x * x)"
  by (simp add: expr_square_def)
lemma rpn_product: "rpn expr_product [x, y] ps [] = Some (x * y)"
  by (simp add: expr_product_def)
lemma rpn_var: "rpn expr_var [x, y] ps [] = Some (x - y * y)"
  by (simp add: expr_var_def)
lemma rpn_cov: "rpn expr_cov [x, y, z] ps [] = Some (x - y * z)"
  by (simp add: expr_cov_def)
lemma rpn_original: "rpn (expr_original eps) [x, y] ps [] = Some (x / (y + eps))"
  by (simp add: expr_original_def)
lemma rpn_sqrt: "rpn expr_sqrt [x, y] ps [] = Some (sqrt (x * y))"
  by (simp add: expr_sqrt_def)
lemma rpn_denominator: "rpn (expr_denominator eps) [x] ps [] = Some (1 / (x + eps))"
  by (simp add: expr_denominator_def)
lemma rpn_weight_aka:
  "rpn expr_weight_aka [x, y] [px, py] [] = Some ((x + 1 / 1000000) * PlaneStatsAverage py)"
  by (simp add: expr_weight_aka_def)
lemma rpn_weight_eval:
  "rpn (expr_weight_eval avg) [x] ps [] = Some ((x + 1 / 1000000) * avg)"
  by (simp add: expr_weight_eval_def)
lemma rpn_gradient_eval:
  "rpn (expr_gradient_eval eps kk alpha) [x, y, z, a] ps []
     = Some ((x + eps * (1 - 1 / (1 + exp (kk * (y - alpha)))) / z) / (a + eps / z))"
  by (simp add: expr_gradient_eval_def)
lemma rpn_gradient_aka:
  "rpn (expr_gradient_aka eps) [x, y, z, a] [px, py, pz, pa] []
     = Some ((x + eps * (1 - 1 / (1 + exp (- 4 / (PlaneStatsMin py - (PlaneStatsAverage py - 1 / 1000000))
                  * (y - PlaneStatsAverage py)))) / z) / (a + eps / z))"
  by (simp add: expr_gradient_aka_def)
lemma rpn_output: "rpn expr_output [x, y, z] ps [] = Some (x * y + z)"
  by (simp add: expr_output_def)




lemma norm_expr_nth:
  assumes "i < num_planes (hd cs)" and "i \<in> set pl" and "j < length (planes_of (hd cs) ! i)"
  shows "planes_of (norm_expr cs e pl) ! i ! j
     = (case rpn (e i) (map (\<lambda>c. planes_of c ! i ! j) cs) (map props cs) [] of
          Some v \<Rightarrow> v | None \<Rightarrow> 0)"
  using assms by (simp add: norm_expr_plane expr_plane_nth)

lemma norm_expr_length:
  "i < num_planes (hd cs) \<Longrightarrow>
   length (planes_of (norm_expr cs e pl) ! i) = length (planes_of (hd cs) ! i)"
  by (simp add: norm_expr_plane expr_plane_length)

lemma PlaneStats_fields [simp]:
  "planes_of (PlaneStats c) = planes_of c"
  "width (PlaneStats c) = width c"
  "height (PlaneStats c) = height c"
  "bits (PlaneStats c) = bits c"
  "num_planes (PlaneStats c) = num_planes c"
  "PlaneStatsAverage (props (PlaneStats c))
     = sum_list (planes_of c ! 0) / real (length (planes_of c ! 0))"
  "PlaneStatsMin (props (PlaneStats c)) = Min (set (planes_of c ! 0))"
  by (simp_all add: PlaneStats_def num_planes_def)

lemma fmt_nth: "i < length vals \<Longrightarrow> i < 3 \<Longrightarrow> fmt vals i = vals ! i"
  by (simp add: fmt_def normalize_seq_def nth_append)

lemma fmt_scalar: "i < 3 \<Longrightarrow> fmt [v] i = v"
  by (simp add: fmt_def normalize_seq_singleton)

lemma norm_expr_cong:
  assumes "hd cs = hd cs'"
    and "\<And>i. i < num_planes (hd cs) \<Longrightarrow> i \<in> set pl \<Longrightarrow> expr_plane (e i) cs i = expr_plane (e' i) cs' i"
  shows "norm_expr cs e pl = norm_expr cs' e' pl"
  using assms by (simp add: norm_expr_def num_planes_def cong: map_cong)

lemma square_as_product:
  "norm_expr [g, g] (\<lambda>i. expr_product) pl = norm_expr [g] (\<lambda>i. expr_square) pl"
  by (rule norm_expr_cong) (simp_all add: expr_plane_def rpn_square rpn_product)

lemma var_as_cov:
  "norm_expr [c, m, m] (\<lambda>i. expr_cov) pl = norm_expr [c, m] (\<lambda>i. expr_var) pl"
  by (rule norm_expr_cong) (simp_all add: expr_plane_def rpn_var rpn_cov)

text \<open>
  C6. When guidance is absent (\<^verbatim>\<open>guidance is None\<close>, so that \<^verbatim>\<open>g\<close> is \<^verbatim>\<open>p\<close>), the
  statistics coincide: \<^verbatim>\<open>mean_I\<close> is \<^verbatim>\<open>mean_p\<close>, \<^verbatim>\<open>corr_Ip\<close> is \<^verbatim>\<open>corr_I\<close> and
  \<^verbatim>\<open>cov_Ip\<close> is \<^verbatim>\<open>var_I\<close>; and these are the maps that the guided formulas give when
  the guidance is the input itself.
\<close>

theorem self_guided_statistics:
  assumes "guidance A = None"
  shows "mean_I (local_statistics blur pl (guidance A \<noteq> None) p p)
           = mean_p (local_statistics blur pl (guidance A \<noteq> None) p p)
    \<and> corr_Ip (local_statistics blur pl (guidance A \<noteq> None) p p)
           = corr_I (local_statistics blur pl (guidance A \<noteq> None) p p)
    \<and> cov_Ip (local_statistics blur pl (guidance A \<noteq> None) p p)
           = var_I (local_statistics blur pl (guidance A \<noteq> None) p p)
    \<and> local_statistics blur pl (guidance A \<noteq> None) p p = local_statistics blur pl True p p"
  using assms by (simp add: local_statistics_def Let_def square_as_product var_as_cov)






lemma weight_nth:
  assumes "i \<in> set pl" "i < num_planes W" "j < length (planes_of W ! i)"
  shows "planes_of (weight_of aka pl W) ! i ! j
     = (planes_of W ! i ! j + 1 / 1000000) * PlaneStatsAverage (props (denominator_of pl W))"
  using assms
  by (simp add: weight_of_def Let_def norm_expr_nth rpn_weight_aka rpn_weight_eval)

lemma weight_backends_agree: "weight_of True pl W = weight_of False pl W"
  unfolding weight_of_def Let_def
  by (simp, rule norm_expr_cong) (simp_all add: expr_plane_def rpn_weight_aka rpn_weight_eval)






lemma gradient_a_aka_nth:
  assumes "i \<in> set pl" "i < num_planes cov" "j < length (planes_of cov ! i)"
    "i < length eps" "i < 3"
  shows "planes_of (gradient_a True pl eps cov W weight var) ! i ! j
     = (planes_of cov ! i ! j
        + eps ! i * (1 - 1 / (1 + exp (- 4 / (Min (set (planes_of W ! 0))
                  - sum_list (planes_of W ! 0) / real (length (planes_of W ! 0)) + 1 / 1000000)
             * (planes_of W ! i ! j - sum_list (planes_of W ! 0) / real (length (planes_of W ! 0))))))
          / planes_of weight ! i ! j)
       / (planes_of var ! i ! j + eps ! i / planes_of weight ! i ! j)"
  using assms
  by (simp add: gradient_a_def Let_def norm_expr_nth rpn_gradient_aka fmt_nth algebra_simps)

lemma gradient_a_eval_nth:
  assumes "i \<in> set pl" "i < num_planes cov" "j < length (planes_of cov ! i)"
    "i < length eps" "i < 3"
  shows "planes_of (gradient_a False pl eps cov W weight var) ! i ! j
     = (planes_of cov ! i ! j
        + eps ! i * (1 - 1 / (1 + exp (- 4 / (Min (set (planes_of W ! 0))
                  - sum_list (planes_of W ! 0) / real (length (planes_of W ! 0)) - 1 / 1000000)
             * (planes_of W ! i ! j - sum_list (planes_of W ! 0) / real (length (planes_of W ! 0))))))
          / planes_of weight ! i ! j)
       / (planes_of var ! i ! j + eps ! i / planes_of weight ! i ! j)"
  using assms
  by (simp add: gradient_a_def Let_def norm_expr_nth rpn_gradient_eval fmt_nth fmt_scalar)





lemma plain_clip_simps [simp]:
  "planes_of (plain_clip ps) = ps" "num_planes (plain_clip ps) = length ps"
  by (simp_all add: plain_clip_def num_planes_def)

lemma sharpen_neq:
  assumes "z \<noteq> 0" "e \<noteq> 0" "v + e / z \<noteq> 0" "t1 \<noteq> t2"
  shows "(c + e * (1 - 1 / (1 + exp t1)) / z) / (v + e / z)
       \<noteq> (c + e * (1 - 1 / (1 + exp t2)) / z) / (v + e / (z::real))"
proof
  assume eq: "(c + e * (1 - 1 / (1 + exp t1)) / z) / (v + e / z)
       = (c + e * (1 - 1 / (1 + exp t2)) / z) / (v + e / z)"
  have p1: "1 + exp t1 \<noteq> 0" using exp_gt_zero [of t1] by linarith
  have p2: "1 + exp t2 \<noteq> 0" using exp_gt_zero [of t2] by linarith
  from eq assms(3) have "c + e * (1 - 1 / (1 + exp t1)) / z = c + e * (1 - 1 / (1 + exp t2)) / z"
    by simp
  then have "e * (1 - 1 / (1 + exp t1)) = e * (1 - 1 / (1 + exp t2))"
    using assms(1) by simp
  then have "1 / (1 + exp t1) = 1 / (1 + exp t2)" using assms(2) by simp
  then have "1 + exp t1 = 1 + exp t2" using p1 p2 by (simp add: divide_simps)
  then have "t1 = t2" by simp
  then show False using assms(4) by simp
qed

theorem self_guided_statistics_witness:
  "guidance default_args = None
   \<and> mean_I (local_statistics (\<lambda>c. c) [0] (guidance default_args \<noteq> None)
         (plain_clip [[1, 2]]) (plain_clip [[1, 2]]))
       = mean_p (local_statistics (\<lambda>c. c) [0] (guidance default_args \<noteq> None)
         (plain_clip [[1, 2]]) (plain_clip [[1, 2]]))
   \<and> cov_Ip (local_statistics (\<lambda>c. c) [0] (guidance default_args \<noteq> None)
         (plain_clip [[1, 2]]) (plain_clip [[1, 2]]))
       = var_I (local_statistics (\<lambda>c. c) [0] (guidance default_args \<noteq> None)
         (plain_clip [[1, 2]]) (plain_clip [[1, 2]]))"
proof -
  have h: "guidance default_args = None" by (simp add: default_args_def)
  show ?thesis
    using h self_guided_statistics [OF h, of "\<lambda>c. c" "[0]" "plain_clip [[1, 2]]"] by blast
qed


lemma corrective_variance_run:
  "\<not> py_eq r (PInt 1) \<Longrightarrow>
   corrective_variance bc pl r g S
     = norm_expr [bc (I_square S), bc g] (\<lambda>i. expr_var) pl"
  by (simp add: corrective_variance_def Let_def)


lemma weight_source_gradient_nth:
  assumes "i \<in> set pl" "i < num_planes v" "j < length (planes_of v ! i)"
  shows "planes_of (weight_source GRADIENT pl v v1) ! i ! j
     = sqrt (planes_of v ! i ! j * planes_of v1 ! i ! j)"
  using assms by (simp add: weight_source_def norm_expr_nth rpn_sqrt)

text \<open>
  C7. In GRADIENT mode the weight source is \<open>W = sqrt (var_I * var_I_1)\<close>, and with
  \<open>mu_W\<close> and \<open>min_W\<close> the mean and the minimum of plane 0 of \<open>W\<close> the slope is
  \<open>a = (cov_Ip + eps * (1 - 1 / (1 + exp (k * (W - mu_W)))) / weight) / (var_I + eps / weight)\<close>.
  The constant is \<open>k = -4 / (min_W - mu_W - 1e-6)\<close> in the callback of \<^verbatim>\<open>FrameEval\<close>, as
  the claim states it, and \<open>k = -4 / (min_W - mu_W + 1e-6)\<close> in the single expression
  taken when \<^verbatim>\<open>aka_expr_available\<close>: there \<^verbatim>\<open>y.PlaneStatsMin y.PlaneStatsAverage 1e-6 - -\<close>
  subtracts \<open>mu_W - 1e-6\<close> from \<open>min_W\<close>.
\<close>

theorem gradient_slope:
  assumes "i \<in> set pl" and "i < 3" and "i < length eps"
    and "i < num_planes (cov_Ip S)" and "j < length (planes_of (cov_Ip S) ! i)"
    and "i < num_planes (var_I S)" and "j < length (planes_of (var_I S) ! i)"
  shows "(let var_I_1 = corrective_variance bc pl r g S;
              W = weight_source GRADIENT pl (var_I S) var_I_1;
              weight = weight_of aka pl W;
              mu_W = sum_list (planes_of W ! 0) / real (length (planes_of W ! 0));
              min_W = Min (set (planes_of W ! 0));
              k = - 4 / (if aka then min_W - mu_W + 1 / 1000000
                         else min_W - mu_W - 1 / 1000000);
              a = solve_a GRADIENT aka bc pl eps r g S
          in planes_of W ! i ! j
               = sqrt (planes_of (var_I S) ! i ! j * planes_of var_I_1 ! i ! j)
           \<and> planes_of a ! i ! j
               = (planes_of (cov_Ip S) ! i ! j
                  + eps ! i * (1 - 1 / (1 + exp (k * (planes_of W ! i ! j - mu_W))))
                    / planes_of weight ! i ! j)
                 / (planes_of (var_I S) ! i ! j + eps ! i / planes_of weight ! i ! j))"
proof (cases aka)
  case True
  then show ?thesis
    unfolding Let_def using assms
    by (simp add: solve_a_def Let_def weight_source_gradient_nth gradient_a_aka_nth)
next
  case False
  then show ?thesis
    unfolding Let_def using assms
    by (simp add: solve_a_def Let_def weight_source_gradient_nth gradient_a_eval_nth)
qed

lemma example_W:
  "weight_source GRADIENT [0] (plain_clip [[0, 1]])
     (corrective_variance (\<lambda>c. c) [0] (PList [PInt 3]) (plain_clip [[0, 0]])
        \<lparr>mean_p = plain_clip [[0, 1]], mean_I = plain_clip [[0, 1]],
         I_square = plain_clip [[0, 4]], corr_I = plain_clip [[0, 2]],
         corr_Ip = plain_clip [[0, 2]], var_I = plain_clip [[0, 1]],
         cov_Ip = plain_clip [[0, 1]]\<rparr>)
   = plain_clip [[0, 2]]"
  by (simp add: corrective_variance_run weight_source_def norm_expr_def expr_plane_def
        rpn_var rpn_sqrt plain_clip_def num_planes_def)


lemma example_weight_source:
  "weight_source GRADIENT [0] (var_I example_statistics)
     (corrective_variance (\<lambda>c. c) [0] (PList [PInt 3]) (plain_clip [[0, 0]]) example_statistics)
   = plain_clip [[0, 2]]"
  by (simp add: corrective_variance_run weight_source_def norm_expr_def expr_plane_def
        rpn_var rpn_sqrt plain_clip_def num_planes_def example_statistics_def)

lemma example_weight:
  "planes_of (weight_of aka [0] (plain_clip [[0, 2]])) ! 0 ! Suc 0 = 1000001"
  by (simp add: weight_nth denominator_of_def norm_expr_plane expr_plane_def rpn_denominator
        fmt_scalar)

lemma example_solve_a:
  "planes_of (solve_a GRADIENT aka (\<lambda>c. c) [0] [1] (PList [PInt 3]) (plain_clip [[0, 0]])
      example_statistics) ! 0 ! 1
   = (1 + 1 * (1 - 1 / (1 + exp (- 4 / (if aka then 0 - 1 + 1 / 1000000 else 0 - 1 - 1 / 1000000)
                               * (2 - 1)))) / 1000001)
     / (1 + 1 / 1000001)"
proof -
  have a: "solve_a GRADIENT aka (\<lambda>c. c) [0] [1] (PList [PInt 3]) (plain_clip [[0, 0]])
      example_statistics
    = gradient_a aka [0] [1] (plain_clip [[0, 1]]) (plain_clip [[0, 2]])
        (weight_of aka [0] (plain_clip [[0, 2]])) (plain_clip [[0, 1]])"
    using example_weight_source
    by (simp add: solve_a_def Let_def example_statistics_def)
  show ?thesis
    unfolding a
    by (cases aka) (simp_all add: gradient_a_aka_nth gradient_a_eval_nth example_weight)
qed

theorem gradient_slope_witness:
  "planes_of (solve_a GRADIENT True (\<lambda>c. c) [0] [1] (PList [PInt 3]) (plain_clip [[0, 0]])
      example_statistics) ! 0 ! 1
   = (1 + 1 * (1 - 1 / (1 + exp (- 4 / (0 - 1 + 1 / 1000000) * (2 - 1)))) / 1000001)
     / (1 + 1 / 1000001)"
  using gradient_slope [of 0 "[0]" "[1]" example_statistics 1 "\<lambda>c. c" "PList [PInt 3]"
      "plain_clip [[0, 0]]" True]
  by (simp add: Let_def example_weight_source example_weight)
     (simp add: example_statistics_def)

text \<open>
  C10. The two backends compute the same \<^verbatim>\<open>weight\<close>, and they do not compute the same
  slope in GRADIENT mode: on the statistics \<open>example_statistics\<close>, where \<open>W\<close> is
  \<open>[0, 2]\<close>, the single expression uses \<open>k = -4 / (0 - 1 + 1e-6)\<close> and the callback
  \<open>k = -4 / (0 - 1 - 1e-6)\<close>, and the slopes at the second pixel differ.
\<close>

theorem gradient_backends_differ:
  "weight_of True [0] (plain_clip [[0, 2]]) = weight_of False [0] (plain_clip [[0, 2]])
   \<and> planes_of (solve_a GRADIENT True (\<lambda>c. c) [0] [1] (PList [PInt 3]) (plain_clip [[0, 0]])
         example_statistics) ! 0 ! 1
     \<noteq> planes_of (solve_a GRADIENT False (\<lambda>c. c) [0] [1] (PList [PInt 3]) (plain_clip [[0, 0]])
         example_statistics) ! 0 ! 1"
proof -
  have "(1 + 1 * (1 - 1 / (1 + exp (- 4 / (0 - 1 + 1 / 1000000) * (2 - 1)))) / 1000001)
          / (1 + 1 / 1000001)
       \<noteq> (1 + 1 * (1 - 1 / (1 + exp (- 4 / (0 - 1 - 1 / 1000000) * (2 - 1)))) / 1000001)
          / (1 + 1 / (1000001::real))"
    by (rule sharpen_neq) simp_all
  then show ?thesis
    unfolding example_solve_a by (simp add: weight_backends_agree)
qed

section \<open>The filter as a whole\<close>

lemma blur_planes_fields [simp]:
  "width (blur_planes X ks pl c) = width c"
  "height (blur_planes X ks pl c) = height c"
  "bits (blur_planes X ks pl c) = bits c"
  "props (blur_planes X ks pl c) = props c"
  "num_planes (blur_planes X ks pl c) = num_planes c"
  by (simp_all add: blur_planes_def num_planes_def)

lemma blur_planes_plane:
  "i < num_planes c \<Longrightarrow>
   planes_of (blur_planes X ks pl c) ! i
     = (if i \<in> set pl
        then blur_plane X (ks ! i) (plane_width c i) (plane_height c i) (planes_of c ! i)
        else planes_of c ! i)"
  by (simp add: blur_planes_def num_planes_def)

lemma blur_filter_fields [simp]:
  "width (blur_filter X ug rs pl c) = width c"
  "height (blur_filter X ug rs pl c) = height c"
  "bits (blur_filter X ug rs pl c) = bits c"
  "props (blur_filter X ug rs pl c) = props c"
  "num_planes (blur_filter X ug rs pl c) = num_planes c"
  by (simp_all add: blur_filter_def box_blur_def gauss_blur_def)

lemma blur_filter_unselected:
  "i < num_planes c \<Longrightarrow> i \<notin> set pl \<Longrightarrow>
   planes_of (blur_filter X ug rs pl c) ! i = planes_of c ! i"
  by (simp add: blur_filter_def box_blur_def gauss_blur_def blur_planes_plane)

lemma blur_filter_corr_fields [simp]:
  "width (blur_filter_corr X ug pl c) = width c"
  "height (blur_filter_corr X ug pl c) = height c"
  "bits (blur_filter_corr X ug pl c) = bits c"
  "props (blur_filter_corr X ug pl c) = props c"
  "num_planes (blur_filter_corr X ug pl c) = num_planes c"
  by (simp_all add: blur_filter_corr_def box_blur_def gauss_blur_def)

lemma depth_fields [simp]:
  "width (depth X c b) = width c"
  "height (depth X c b) = height c"
  "bits (depth X c b) = b"
  "props (depth X c b) = props c"
  "num_planes (depth X c b) = num_planes c"
  by (simp_all add: depth_def num_planes_def)

lemma depth_plane:
  "i < num_planes c \<Longrightarrow>
   planes_of (depth X c b) ! i
     = (if bits c = b then planes_of c ! i else map (convert X (bits c) b i) (planes_of c ! i))"
  by (simp add: depth_def num_planes_def)

lemma ints_of_map_PInt: "ints_of (map PInt rs) = Inr rs"
  by (induction rs) simp_all

lemma reduce_resolution_off:
  "down_ratio A = 0 \<Longrightarrow> reduce_resolution X A w h p g r = Inr (p, g, PList (map PInt r))"
  by (simp add: reduce_resolution_def)

lemma reduce_resolution_on:
  "down_ratio A \<noteq> 0 \<Longrightarrow> reduce_resolution X A w h p g r = Inl TypeError"
  by (simp add: reduce_resolution_def Let_def)

lemma guided_filter_reducing:
  "down_ratio A \<noteq> 0 \<Longrightarrow>
   guided_filter X aka clip A
     = (case check_ref_clip clip (guidance A) of Inl e \<Rightarrow> Inl e | Inr u \<Rightarrow> Inl TypeError)"
  by (simp add: guided_filter_def Let_def reduce_resolution_on expect_bits_def
           split: sum.splits)

lemma guided_filter_plain:
  assumes "down_ratio A = 0"
  shows "guided_filter X aka clip A
     = (case check_ref_clip clip (guidance A) of Inl e \<Rightarrow> Inl e
        | Inr u \<Rightarrow> Inr (depth X (working_result X aka clip A) (bits clip)))"
  using assms
  by (simp add: guided_filter_def working_result_def Let_def reduce_resolution_off
        expect_bits_def ints_of_map_PInt split_beta split: sum.splits option.splits)

lemma norm_expr_unselected:
  "i < num_planes (hd cs) \<Longrightarrow> i \<notin> set pl \<Longrightarrow>
   planes_of (norm_expr cs e pl) ! i = planes_of (hd cs) ! i"
  by (simp add: norm_expr_plane)

lemma cov_Ip_fields:
  "width (cov_Ip (local_statistics (blur_filter X ug rs pl) pl guided p g)) = width g"
  "height (cov_Ip (local_statistics (blur_filter X ug rs pl) pl guided p g)) = height g"
  "bits (cov_Ip (local_statistics (blur_filter X ug rs pl) pl guided p g)) = bits g"
  "num_planes (cov_Ip (local_statistics (blur_filter X ug rs pl) pl guided p g)) = num_planes g"
  by (simp_all add: local_statistics_def Let_def)

lemma cov_Ip_unselected:
  "i < num_planes g \<Longrightarrow> i \<notin> set pl \<Longrightarrow>
   planes_of (cov_Ip (local_statistics (blur_filter X ug rs pl) pl guided p g)) ! i
     = planes_of g ! i"
  by (simp add: local_statistics_def Let_def norm_expr_unselected blur_filter_unselected)

lemma solve_a_fields:
  "width (solve_a m aka bc pl eps r g S) = width (cov_Ip S)"
  "height (solve_a m aka bc pl eps r g S) = height (cov_Ip S)"
  "bits (solve_a m aka bc pl eps r g S) = bits (cov_Ip S)"
  "num_planes (solve_a m aka bc pl eps r g S) = num_planes (cov_Ip S)"
  by (simp_all add: solve_a_def gradient_a_def Let_def)

lemma solve_a_unselected:
  "i < num_planes (cov_Ip S) \<Longrightarrow> i \<notin> set pl \<Longrightarrow>
   planes_of (solve_a m aka bc pl eps r g S) ! i = planes_of (cov_Ip S) ! i"
  by (simp add: solve_a_def gradient_a_def Let_def norm_expr_unselected)

lemma mean_a_fields:
  "width (fst (smoothed_coefficients X aka A pl eps r rs p g)) = width g"
  "height (fst (smoothed_coefficients X aka A pl eps r rs p g)) = height g"
  "bits (fst (smoothed_coefficients X aka A pl eps r rs p g)) = bits g"
  "num_planes (fst (smoothed_coefficients X aka A pl eps r rs p g)) = num_planes g"
  by (simp_all add: smoothed_coefficients_def Let_def solve_a_fields cov_Ip_fields)

lemma mean_a_unselected:
  "i < num_planes g \<Longrightarrow> i \<notin> set pl \<Longrightarrow>
   planes_of (fst (smoothed_coefficients X aka A pl eps r rs p g)) ! i = planes_of g ! i"
  by (simp add: smoothed_coefficients_def Let_def solve_a_fields cov_Ip_fields
        blur_filter_unselected solve_a_unselected cov_Ip_unselected)

lemma working_result_fields:
  "width (working_result X aka clip A) = width (guidance_clip_of X clip A)"
  "height (working_result X aka clip A) = height (guidance_clip_of X clip A)"
  "bits (working_result X aka clip A) = 32"
  "num_planes (working_result X aka clip A) = num_planes (guidance_clip_of X clip A)"
  by (simp_all add: working_result_def guidance_clip_of_def Let_def mean_a_fields
        split: option.splits)

lemma working_result_unselected:
  assumes "i < num_planes (guidance_clip_of X clip A)"
    and "i \<notin> set (normalize_planes clip (planes A))"
  shows "planes_of (working_result X aka clip A) ! i = planes_of (guidance_clip_of X clip A) ! i"
  using assms
  by (simp add: working_result_def guidance_clip_of_def Let_def mean_a_fields
        mean_a_unselected norm_expr_unselected split: option.splits)

lemma check_ref_clip_ok:
  "check_ref_clip clip gdo = Inr u \<Longrightarrow>
   (case gdo of None \<Rightarrow> True
    | Some gd \<Rightarrow> width gd = width clip \<and> height gd = height clip
        \<and> num_planes gd = num_planes clip)"
  by (simp add: check_ref_clip_def split: option.splits if_splits)

text \<open>
  C4. The claim says that a run with \<^verbatim>\<open>down_ratio\<close> at least 2 completes. It does not:
  line 68 divides the list \<^verbatim>\<open>r\<close> by \<^verbatim>\<open>down_ratio\<close>, which raises TypeError, so
  the filter returns no clip. (A guidance refused at line 53 raises before.)
\<close>

theorem down_ratio_raises:
  assumes "2 \<le> down_ratio A"
  shows "guided_filter X aka clip A
           = (case check_ref_clip clip (guidance A) of
                Inl e \<Rightarrow> Inl e | Inr u \<Rightarrow> Inl TypeError)
         \<and> (\<forall>q. guided_filter X aka clip A \<noteq> Inr q)"
proof -
  have nz: "down_ratio A \<noteq> 0" using assms by simp
  show ?thesis
    unfolding guided_filter_reducing [OF nz] by (simp split: sum.splits)
qed

theorem down_ratio_raises_witness:
  "(2::int) \<le> down_ratio (default_args\<lparr>down_ratio := 2\<rparr>)
   \<and> guided_filter plain_collab True (plain_clip [[1, 2]]) (default_args\<lparr>down_ratio := 2\<rparr>)
       = Inl TypeError"
proof -
  have h: "(2::int) \<le> down_ratio (default_args\<lparr>down_ratio := 2\<rparr>)" by simp
  show ?thesis
    using h down_ratio_raises [OF h, of plain_collab True "plain_clip [[1, 2]]"]
    by (simp add: check_ref_clip_def default_args_def)
qed

text \<open>
  C9. Without resolution reduction the filter returns a clip with the width, height,
  plane count and bit depth of the input. With any \<^verbatim>\<open>down_ratio\<close> other than 0 it
  returns no clip at all (the TypeError of line 68), so the output does not have the
  dimensions of the input regardless of \<^verbatim>\<open>down_ratio\<close>.
\<close>

theorem output_format:
  "(down_ratio A = 0 \<and> check_ref_clip clip (guidance A) = Inr () \<longrightarrow>
      (\<exists>q. guided_filter X aka clip A = Inr q \<and> width q = width clip
          \<and> height q = height clip \<and> num_planes q = num_planes clip
          \<and> bits q = bits clip))
   \<and> (down_ratio A \<noteq> 0 \<longrightarrow> (\<forall>q. guided_filter X aka clip A \<noteq> Inr q))"
proof (intro conjI impI)
  assume h: "down_ratio A = 0 \<and> check_ref_clip clip (guidance A) = Inr ()"
  then have ok: "check_ref_clip clip (guidance A) = Inr ()" by simp
  have g: "width (guidance_clip_of X clip A) = width clip
      \<and> height (guidance_clip_of X clip A) = height clip
      \<and> num_planes (guidance_clip_of X clip A) = num_planes clip"
    using check_ref_clip_ok [OF ok]
    by (simp add: guidance_clip_of_def split: option.splits)
  have "guided_filter X aka clip A = Inr (depth X (working_result X aka clip A) (bits clip))"
    using h by (simp add: guided_filter_plain)
  then show "\<exists>q. guided_filter X aka clip A = Inr q \<and> width q = width clip
          \<and> height q = height clip \<and> num_planes q = num_planes clip \<and> bits q = bits clip"
    using g by (simp add: working_result_fields)
next
  assume nz: "down_ratio A \<noteq> 0"
  show "\<forall>q. guided_filter X aka clip A \<noteq> Inr q"
    unfolding guided_filter_reducing [OF nz] by (simp split: sum.splits)
qed

lemma plain_clip_fields [simp]:
  "bits (plain_clip ps) = 32" "width (plain_clip ps) = length (hd ps)"
  "height (plain_clip ps) = 1"
  by (simp_all add: plain_clip_def)

theorem output_format_witness:
  "(\<exists>q. guided_filter plain_collab True (plain_clip [[1, 2]]) default_args = Inr q
        \<and> width q = width (plain_clip [[1, 2]]) \<and> height q = height (plain_clip [[1, 2]])
        \<and> num_planes q = num_planes (plain_clip [[1, 2]])
        \<and> bits q = bits (plain_clip [[1, 2]]))
   \<and> (\<forall>q. guided_filter plain_collab True (plain_clip [[1, 2]])
              (default_args\<lparr>down_ratio := 2\<rparr>) \<noteq> Inr q)"
proof -
  have h0: "down_ratio default_args = 0
            \<and> check_ref_clip (plain_clip [[1, 2]]) (guidance default_args) = Inr ()"
    by (simp add: default_args_def check_ref_clip_def)
  have h2: "down_ratio (default_args\<lparr>down_ratio := 2\<rparr>) \<noteq> 0" by simp
  show ?thesis
    using h0 h2 output_format [of default_args "plain_clip [[1, 2]]" plain_collab True]
      output_format [of "default_args\<lparr>down_ratio := 2\<rparr>" "plain_clip [[1, 2]]"
        plain_collab True]
    by blast
qed

text \<open>
  C8. A plane outside \<^verbatim>\<open>planes\<close> is copied through the first clip of every
  expression and through every blur; the chain ends at \<^verbatim>\<open>g\<close>. Self-guided, the
  output plane is the input plane at the working precision, converted back. With a
  guidance it is the plane of the guidance, not of the input.
\<close>

theorem unselected_plane:
  assumes "down_ratio A = 0" and "check_ref_clip clip (guidance A) = Inr ()"
    and "i < num_planes clip" and "i \<notin> set (normalize_planes clip (planes A))"
  shows "\<exists>q. guided_filter X aka clip A = Inr q
     \<and> planes_of (working_result X aka clip A) ! i
         = planes_of (case guidance A of None \<Rightarrow> depth X clip 32
                      | Some gd \<Rightarrow> depth X gd 32) ! i
     \<and> planes_of q ! i
         = planes_of (case guidance A of None \<Rightarrow> depth X (depth X clip 32) (bits clip)
                      | Some gd \<Rightarrow> depth X (depth X gd 32) (bits clip)) ! i"
proof -
  have g: "num_planes (guidance_clip_of X clip A) = num_planes clip"
    using check_ref_clip_ok [OF assms(2)]
    by (simp add: guidance_clip_of_def split: option.splits)
  have q: "guided_filter X aka clip A = Inr (depth X (working_result X aka clip A) (bits clip))"
    using assms(1,2) by (simp add: guided_filter_plain)
  have w: "planes_of (working_result X aka clip A) ! i
           = planes_of (guidance_clip_of X clip A) ! i"
    using assms(3,4) g by (simp add: working_result_unselected)
  have d: "planes_of (depth X (working_result X aka clip A) (bits clip)) ! i
           = planes_of (depth X (guidance_clip_of X clip A) (bits clip)) ! i"
    using assms(3) g w
    by (simp add: depth_plane working_result_fields guidance_clip_of_def split: option.splits)
  show ?thesis
    using q w d by (simp add: guidance_clip_of_def split: option.splits)
qed

theorem unselected_plane_witness:
  "\<exists>q. guided_filter plain_collab True (plain_clip [[1], [2], [3]])
          (default_args\<lparr>guidance := Some (plain_clip [[1], [5], [3]]), planes := Some [0]\<rparr>)
        = Inr q
     \<and> planes_of q ! 1 = [5] \<and> planes_of (plain_clip [[1], [2], [3]]) ! 1 = [2]"
proof -
  let ?A = "default_args\<lparr>guidance := Some (plain_clip [[1], [5], [3]]), planes := Some [0]\<rparr>"
  let ?c = "plain_clip [[1], [2], [3]]"
  have h1: "down_ratio ?A = 0" by (simp add: default_args_def)
  have h2: "check_ref_clip ?c (guidance ?A) = Inr ()" by (simp add: check_ref_clip_def)
  have h3: "1 < num_planes ?c" by simp
  have h4: "1 \<notin> set (normalize_planes ?c (planes ?A))" by (simp add: normalize_planes_def)
  show ?thesis
    using unselected_plane [OF h1 h2 h3 h4, of plain_collab True]
    by (auto simp: depth_def)
qed

lemma blur_filter_radius_1:
  "num_planes c = n \<Longrightarrow>
   blur_filter X ug (normalize_seq [1] n) pl c = blur_filter_corr X ug pl c"
  by (simp add: blur_filter_def blur_filter_corr_def normalize_seq_singleton)

lemma py_eq_list_int: "\<not> py_eq (PList xs) (PInt k)"
  by simp

text \<open>
  C1. With \<^verbatim>\<open>radius = 1\<close> the value bound to \<^verbatim>\<open>r\<close> is the list of ones, one per
  plane, so the test \<^verbatim>\<open>r == 1\<close> of line 93 is false and the corrective pass of lines
  96 to 98 is not skipped: \<^verbatim>\<open>var_I_1\<close> is computed with \<^verbatim>\<open>blur_filter_corr\<close>. Its
  window is the window of \<^verbatim>\<open>blur_filter\<close> at radius 1, so the map it computes is equal
  to \<^verbatim>\<open>var_I\<close>.
\<close>

theorem corrective_pass_at_radius_1:
  assumes "num_planes g = n" and "guided \<or> p = g"
  shows "(let rs = normalize_seq [1] n;
              r = PList (map PInt rs);
              blur = blur_filter X ug rs pl;
              blur_corr = blur_filter_corr X ug pl;
              S = local_statistics blur pl guided p g
          in \<not> py_eq r (PInt 1)
           \<and> corrective_variance blur_corr pl r g S
               = norm_expr [blur_corr (I_square S), blur_corr g] (\<lambda>i. expr_var) pl
           \<and> corrective_variance blur_corr pl r g S = var_I S)"
proof -
  let ?rs = "normalize_seq [1::int] n"
  let ?S = "local_statistics (blur_filter X ug ?rs pl) pl guided p g"
  have sq: "num_planes (I_square ?S) = n"
    using assms(1) by (simp add: local_statistics_def Let_def)
  have run: "corrective_variance (blur_filter_corr X ug pl) pl (PList (map PInt ?rs)) g ?S
      = norm_expr [blur_filter_corr X ug pl (I_square ?S), blur_filter_corr X ug pl g]
          (\<lambda>i. expr_var) pl"
    by (simp add: corrective_variance_def Let_def)
  have var: "var_I ?S
      = norm_expr [blur_filter X ug ?rs pl (I_square ?S), blur_filter X ug ?rs pl g]
          (\<lambda>i. expr_var) pl"
    using assms(2) by (auto simp: local_statistics_def Let_def)
  have same: "var_I ?S
      = norm_expr [blur_filter_corr X ug pl (I_square ?S), blur_filter_corr X ug pl g]
          (\<lambda>i. expr_var) pl"
    unfolding var blur_filter_radius_1 [OF sq] blur_filter_radius_1 [OF assms(1)] ..
  show ?thesis
    unfolding Let_def using run same by simp
qed

theorem corrective_pass_at_radius_1_witness:
  "\<not> py_eq (PList (map PInt (normalize_seq [1] 1))) (PInt 1)
   \<and> corrective_variance (blur_filter_corr plain_collab False [0]) [0]
        (PList (map PInt (normalize_seq [1] 1))) (plain_clip [[1, 2]])
        (local_statistics (blur_filter plain_collab False (normalize_seq [1] 1) [0]) [0] False
           (plain_clip [[1, 2]]) (plain_clip [[1, 2]]))
     = var_I (local_statistics (blur_filter plain_collab False (normalize_seq [1] 1) [0]) [0] False
           (plain_clip [[1, 2]]) (plain_clip [[1, 2]]))"
proof -
  have h1: "num_planes (plain_clip [[1, 2]]) = 1" by simp
  have h2: "False \<or> plain_clip [[1, 2]] = plain_clip [[1, 2]]" by simp
  show ?thesis
    using corrective_pass_at_radius_1 [OF h1 h2, of plain_collab False "[0]"]
    unfolding Let_def by blast
qed

lemma expr_plane_replicate:
  assumes "cs \<noteq> []" and "\<And>c. c \<in> set cs \<Longrightarrow> planes_of c ! i = replicate n (f c)"
  shows "expr_plane e cs i
     = replicate n (case rpn e (map f cs) (map props cs) [] of Some v \<Rightarrow> v | None \<Rightarrow> 0)"
proof -
  have hd: "planes_of (hd cs) ! i = replicate n (f (hd cs))"
    using assms by simp
  have m: "\<And>j. j < n \<Longrightarrow> map (\<lambda>c. planes_of c ! i ! j) cs = map f cs"
    using assms(2) by (simp cong: map_cong)
  show ?thesis
    unfolding expr_plane_def hd
    by (rule nth_equalityI) (simp_all add: m)
qed

lemma uniform_plane: "uniform c n v \<Longrightarrow> planes_of c ! 0 = replicate n v"
  by (simp add: uniform_def)

lemma uniform_num_planes: "uniform c n v \<Longrightarrow> num_planes c = 1"
  by (simp add: uniform_def num_planes_def)

lemma norm_expr_uniform1:
  assumes "uniform x n vx"
  shows "uniform (norm_expr [x] e [0]) n
           (case rpn (e 0) [vx] [props x] [] of Some v \<Rightarrow> v | None \<Rightarrow> 0)"
proof -
  have "expr_plane (e 0) [x] 0
     = replicate n (case rpn (e 0) (map (\<lambda>c. vx) [x]) (map props [x]) [] of
                      Some v \<Rightarrow> v | None \<Rightarrow> 0)"
    by (rule expr_plane_replicate) (simp_all add: uniform_plane [OF assms])
  then show ?thesis
    using uniform_num_planes [OF assms] by (simp add: uniform_def norm_expr_def)
qed

lemma norm_expr_uniform2:
  assumes "uniform x n vx" and "uniform y n vy"
  shows "uniform (norm_expr [x, y] e [0]) n
           (case rpn (e 0) [vx, vy] [props x, props y] [] of Some v \<Rightarrow> v | None \<Rightarrow> 0)"
proof -
  have p: "planes_of x ! 0 = replicate n vx" "planes_of y ! 0 = replicate n vy"
    using assms by (simp_all add: uniform_plane)
  have "expr_plane (e 0) [x, y] 0 = map (\<lambda>j. case rpn (e 0) [vx, vy] [props x, props y] [] of
                      Some v \<Rightarrow> v | None \<Rightarrow> 0) [0..<n]"
    unfolding expr_plane_def by (simp add: p cong: map_cong)
  then show ?thesis
    using uniform_num_planes [OF assms(1)]
    by (simp add: uniform_def norm_expr_def map_replicate_const)
qed

lemma norm_expr_uniform3:
  assumes "uniform x n vx" and "uniform y n vy" and "uniform z n vz"
  shows "uniform (norm_expr [x, y, z] e [0]) n
           (case rpn (e 0) [vx, vy, vz] [props x, props y, props z] [] of
              Some v \<Rightarrow> v | None \<Rightarrow> 0)"
proof -
  have p: "planes_of x ! 0 = replicate n vx" "planes_of y ! 0 = replicate n vy"
    "planes_of z ! 0 = replicate n vz"
    using assms by (simp_all add: uniform_plane)
  have "expr_plane (e 0) [x, y, z] 0
     = map (\<lambda>j. case rpn (e 0) [vx, vy, vz] [props x, props y, props z] [] of
                      Some v \<Rightarrow> v | None \<Rightarrow> 0) [0..<n]"
    unfolding expr_plane_def by (simp add: p cong: map_cong)
  then show ?thesis
    using uniform_num_planes [OF assms(1)]
    by (simp add: uniform_def norm_expr_def map_replicate_const)
qed

lemma blur_filter_uniform:
  assumes "\<And>k w h m v. blur_plane X k w h (replicate m v) = replicate m v"
    and "uniform c n v"
  shows "uniform (blur_filter X ug rs pl c) n v"
  using assms(2) uniform_num_planes [OF assms(2)]
  by (simp add: uniform_def blur_filter_def box_blur_def gauss_blur_def blur_planes_def assms(1))

lemma smoothed_coefficients_uniform:
  assumes blur: "\<And>k w h m v. blur_plane X k w h (replicate m v) = replicate m v"
    and p: "uniform p n v" and sg: "guidance A = None" and m: "mode A = ORIGINAL"
  shows "uniform (fst (smoothed_coefficients X aka A [0] eps r rs p p)) n 0
       \<and> uniform (snd (smoothed_coefficients X aka A [0] eps r rs p p)) n v"
proof -
  let ?blur = "blur_filter X (use_gauss A) rs [0]"
  let ?S = "local_statistics ?blur [0] (guidance A \<noteq> None) p p"
  note bu = blur_filter_uniform [of X, OF blur]
  have mean_p: "uniform (mean_p ?S) n v"
    using bu [OF p] by (simp add: local_statistics_def Let_def)
  have mean_I: "uniform (mean_I ?S) n v"
    using bu [OF p] sg by (simp add: local_statistics_def Let_def)
  have sq: "uniform (I_square ?S) n (v * v)"
    using norm_expr_uniform1 [OF p, of "\<lambda>i. expr_square"]
    by (simp add: local_statistics_def Let_def rpn_square)
  have corr: "uniform (corr_I ?S) n (v * v)"
    using bu [OF sq] by (simp add: local_statistics_def Let_def)
  have var: "uniform (var_I ?S) n 0"
    using norm_expr_uniform2 [OF corr mean_I, of "\<lambda>i. expr_var"]
    by (simp add: local_statistics_def Let_def rpn_var)
  have cov: "uniform (cov_Ip ?S) n 0"
    using var sg by (simp add: local_statistics_def Let_def)
  let ?a = "solve_a (mode A) aka (blur_filter_corr X (use_gauss A) [0]) [0] eps r p ?S"
  have a: "uniform ?a n 0"
    using norm_expr_uniform2 [OF cov var, of "\<lambda>i. expr_original (fmt eps i)"]
    by (simp add: solve_a_def m rpn_original)
  have b: "uniform (solve_b [0] ?S ?a) n v"
    using norm_expr_uniform3 [OF mean_p a mean_I, of "\<lambda>i. expr_cov"]
    by (simp add: solve_b_def rpn_cov)
  show ?thesis
    using bu [OF a] bu [OF b] by (simp add: smoothed_coefficients_def Let_def)
qed

lemma depth_uniform:
  "uniform c n v \<Longrightarrow> bits c \<noteq> b \<Longrightarrow> uniform (depth X c b) n (convert X (bits c) b 0 v)"
  by (simp add: uniform_def depth_def num_planes_def)

text \<open>
  C3. A uniform 64 by 64 single-plane 8-bit image of value 128, self-guided, with
  \<^verbatim>\<open>radius=3\<close>, \<^verbatim>\<open>mode=ORIGINAL\<close> and \<^verbatim>\<open>regulation=1e-6\<close>, comes out with every sample
  128, for every blur that maps a constant plane to itself and every precision
  conversion that takes 128 to the working precision and back to 128.
\<close>

theorem uniform_image_unchanged:
  assumes blur: "\<And>k w h m v. blur_plane X k w h (replicate m v) = replicate m v"
    and conv: "convert X 32 8 0 (convert X 8 32 0 128) = 128"
  shows "\<exists>q. guided_filter X aka
            \<lparr>width = 64, height = 64, bits = 8, subsampling_w = 0, subsampling_h = 0,
             planes_of = [replicate (64 * 64) 128], props = ps\<rparr>
            (default_args\<lparr>radius := Some 3, mode := ORIGINAL,
               regulation := Some [1 / 1000000]\<rparr>) = Inr q
          \<and> planes_of q = [replicate (64 * 64) 128]"
proof -
  let ?clip = "\<lparr>width = 64, height = 64, bits = 8, subsampling_w = 0, subsampling_h = 0,
             planes_of = [replicate (64 * 64) 128], props = ps\<rparr>"
  let ?A = "default_args\<lparr>radius := Some 3, mode := ORIGINAL,
               regulation := Some [1 / 1000000]\<rparr>"
  let ?v = "convert X 8 32 0 128"
  have c: "uniform ?clip (64 * 64) 128" by (simp add: uniform_def)
  have p: "uniform (depth X ?clip 32) (64 * 64) ?v"
    using depth_uniform [OF c, of 32 X] by simp
  have sg: "guidance ?A = None" and m: "mode ?A = ORIGINAL" and dr: "down_ratio ?A = 0"
    by (simp_all add: default_args_def)
  have pl: "normalize_planes ?clip (planes ?A) = [0]"
    by (simp add: normalize_planes_def default_args_def num_planes_def)
  note ab = smoothed_coefficients_uniform [of X, OF blur p sg m]
  have w: "uniform (working_result X aka ?clip ?A) (64 * 64) ?v"
    unfolding working_result_def Let_def pl sg
    using norm_expr_uniform3 [OF conjunct1 [OF ab] p conjunct2 [OF ab], where e = "\<lambda>i. expr_output"]
    by (simp add: rpn_output)
  have wb: "bits (working_result X aka ?clip ?A) = 32" by (simp add: working_result_fields)
  have out: "uniform (depth X (working_result X aka ?clip ?A) 8) (64 * 64) 128"
    using depth_uniform [OF w, of 8 X] wb conv by simp
  have "guided_filter X aka ?clip ?A = Inr (depth X (working_result X aka ?clip ?A) 8)"
    using dr sg by (simp add: guided_filter_plain check_ref_clip_def)
  then show ?thesis using out by (simp add: uniform_def)
qed

theorem uniform_image_unchanged_witness:
  "\<exists>q. guided_filter plain_collab True
            \<lparr>width = 64, height = 64, bits = 8, subsampling_w = 0, subsampling_h = 0,
             planes_of = [replicate (64 * 64) 128],
             props = \<lparr>PlaneStatsMin = 0, PlaneStatsAverage = 0\<rparr>\<rparr>
            (default_args\<lparr>radius := Some 3, mode := ORIGINAL,
               regulation := Some [1 / 1000000]\<rparr>) = Inr q
          \<and> planes_of q = [replicate (64 * 64) 128]"
proof -
  have h1: "\<And>k w h m v. blur_plane plain_collab k w h (replicate m v) = replicate m v"
    by (simp add: plain_collab_def)
  have h2: "convert plain_collab 32 8 0 (convert plain_collab 8 32 0 128) = 128"
    by (simp add: plain_collab_def)
  show ?thesis
    using h1 h2 by (rule uniform_image_unchanged)
qed

end
